theory Spec2Isabelle
  imports Complex_Main "HOL-Library.Sublist"
begin

section \<open>Data model (types.ts)\<close>

text \<open>
  A JavaScript number is modelled as a rational (every finite double is one; there is no
  NaN and no infinity). The arithmetic of the store and of the export is read over exact
  numbers. The arithmetic of the drag resolution is the rounded one of the language, defined
  below, since what its clamps yield turns on the rounding.
\<close>

datatype ClipType = VIDEO | AUDIO | IMAGE | TEXT

datatype AssetType = Asset_video | Asset_audio | Asset_image

datatype TrackType = Track_video | Track_audio | Track_overlay

datatype Align = Align_left | Align_center | Align_right

datatype TransitionType = Fade | Slide | Zoom

text \<open>MediaAsset; the fields \<open>file\<close> and \<open>thumbnail\<close> are never read by the modelled code.\<close>

record MediaAsset =
  asset_id :: string
  asset_url :: string
  asset_type :: AssetType
  asset_duration :: rat
  asset_name :: string

record Transform =
  transform_x :: rat
  transform_y :: rat
  scale :: rat
  rotation :: rat
  opacity :: rat

record TextData =
  content :: string
  fontSize :: rat
  fontFamily :: string
  color :: string
  backgroundColor :: string
  align :: Align

record Transition =
  inDuration :: rat
  outDuration :: rat
  transition_type :: TransitionType

record Clip =
  clip_id :: string
  assetId :: "string option"
  trackId :: rat
  clip_type :: ClipType
  timelineStart :: rat
  inPoint :: rat
  duration :: rat
  transform :: Transform
  zIndex :: rat
  label :: "string option"
  textData :: "TextData option"
  transition :: "Transition option"
  volume :: "rat option"

record Track =
  track_id :: rat
  track_type :: TrackType
  track_name :: string
  isMuted :: bool
  isHidden :: bool

record CanvasSize =
  width :: rat
  height :: rat
  canvas_name :: string

subsection \<open>Objects used as dictionaries\<close>

text \<open>
  A \<open>Record<string, V>\<close> is a JavaScript object. It is modelled by the list of its own
  properties in the order in which \<open>Object.values\<close>, \<open>Object.keys\<close> and the spread
  operator enumerate them: first the keys that are array indices (canonical decimal
  strings below \<open>2^32 - 1\<close>) in ascending numeric order, then all other keys in the
  order in which they were created. Two objects with the same list cannot be told apart
  by the code.
\<close>

type_synonym 'v jsobj = "(string \<times> 'v) list"

definition isDigit :: "char \<Rightarrow> bool" where
  "isDigit c = (c \<in> set ''0123456789'')"

text \<open>The value of a decimal digit, and of a string of decimal digits.\<close>

definition digitVal :: "char \<Rightarrow> nat" where
  "digitVal c = length (takeWhile (\<lambda>d. d \<noteq> c) ''0123456789'')"

definition digitsValue :: "string \<Rightarrow> nat" where
  "digitsValue k = foldl (\<lambda>n c. 10 * n + digitVal c) 0 k"

definition isArrayIndex :: "string \<Rightarrow> bool" where
  "isArrayIndex k =
     (k \<noteq> [] \<and> list_all isDigit k \<and> (if hd k = CHR ''0'' then k = ''0'' else True)
      \<and> digitsValue k < 4294967295)"

text \<open>
  The names every object inherits from \<open>Object.prototype\<close>. An expression \<open>obj[k]\<close>
  with such a name finds the inherited value (a function, or the prototype itself) when
  the object has no property of its own with that name.
\<close>

definition inheritedNames :: "string list" where
  "inheritedNames =
     [''constructor'', ''hasOwnProperty'', ''isPrototypeOf'', ''propertyIsEnumerable'',
      ''toLocaleString'', ''toString'', ''valueOf'', ''__proto__'', ''__defineGetter__'',
      ''__defineSetter__'', ''__lookupGetter__'', ''__lookupSetter__'']"

text \<open>The value of \<open>obj[k]\<close>: a value of the object's own, an inherited one, or \<open>undefined\<close>.\<close>

datatype 'v Lookup = Undefined | Own 'v | Inherited

definition jsIndex :: "'v jsobj \<Rightarrow> string \<Rightarrow> 'v Lookup" where
  "jsIndex obj k =
     (case map_of obj k of
        Some v \<Rightarrow> Own v
      | None \<Rightarrow> if k \<in> set inheritedNames then Inherited else Undefined)"

text \<open>\<open>!v\<close> for the value of a lookup: stored objects and inherited values are truthy.\<close>

definition isFalsy :: "'v Lookup \<Rightarrow> bool" where
  "isFalsy v = (case v of Undefined \<Rightarrow> True | Own x \<Rightarrow> False | Inherited \<Rightarrow> False)"

text \<open>
  The lookup among the object's own properties. It is \<open>obj[k]\<close> for every key outside
  \<open>inheritedNames\<close>, and the code's lookups are modelled by it: the keys they are given
  are taken to be outside \<open>inheritedNames\<close>.
\<close>

definition obj_get :: "'v jsobj \<Rightarrow> string \<Rightarrow> 'v option" where
  "obj_get obj k = map_of obj k"

definition obj_has :: "'v jsobj \<Rightarrow> string \<Rightarrow> bool" where
  "obj_has obj k = (map_of obj k \<noteq> None)"

fun insertIndex :: "string \<Rightarrow> 'v \<Rightarrow> 'v jsobj \<Rightarrow> 'v jsobj" where
  "insertIndex k v [] = [(k, v)]"
| "insertIndex k v (p # rest) =
     (if isArrayIndex (fst p) \<and> digitsValue (fst p) < digitsValue k
      then p # insertIndex k v rest
      else (k, v) # p # rest)"

text \<open>
  \<open>{ ...obj, [k]: v }\<close>: the spread copies the properties in enumeration order, so the
  copy is the same list; assigning an existing key keeps its position, a new array-index
  key is enumerated among the array indices, any other new key comes last.
\<close>

definition obj_set :: "'v jsobj \<Rightarrow> string \<Rightarrow> 'v \<Rightarrow> 'v jsobj" where
  "obj_set obj k v =
     (if obj_has obj k then map (\<lambda>p. if fst p = k then (k, v) else p) obj
      else if isArrayIndex k then insertIndex k v obj
      else obj @ [(k, v)])"

text \<open>\<open>const o = { ...obj }; delete o[k]\<close>\<close>

definition obj_delete :: "'v jsobj \<Rightarrow> string \<Rightarrow> 'v jsobj" where
  "obj_delete obj k = filter (\<lambda>p. fst p \<noteq> k) obj"

definition objectValues :: "'v jsobj \<Rightarrow> 'v list" where
  "objectValues obj = map snd obj"

record TimelineState =
  assets :: "MediaAsset jsobj"
  tracks :: "Track list"
  clips :: "Clip jsobj"
  state_duration :: rat
  currentTime :: rat
  isPlaying :: bool
  selectedClipId :: "string option"
  zoom :: rat
  canvasSize :: CanvasSize

definition DEFAULT_TRANSFORM :: Transform where
  "DEFAULT_TRANSFORM =
     \<lparr>transform_x = 0, transform_y = 0, scale = 1, rotation = 0, opacity = 1\<rparr>"

section \<open>Timeline store (services/timelineStore.tsx)\<close>

subsection \<open>Actions\<close>

text \<open>
  \<open>Partial<Clip>\<close>: \<open>None\<close> is an absent key. For the optional fields of \<open>Clip\<close> a
  present key may carry \<open>undefined\<close>, which is \<open>Some None\<close>.
\<close>

record ClipChanges =
  ch_id :: "string option"
  ch_assetId :: "string option option"
  ch_trackId :: "rat option"
  ch_type :: "ClipType option"
  ch_timelineStart :: "rat option"
  ch_inPoint :: "rat option"
  ch_duration :: "rat option"
  ch_transform :: "Transform option"
  ch_zIndex :: "rat option"
  ch_label :: "string option option"
  ch_textData :: "TextData option option"
  ch_transition :: "Transition option option"
  ch_volume :: "rat option option"

definition noChanges :: ClipChanges where
  "noChanges =
     \<lparr>ch_id = None, ch_assetId = None, ch_trackId = None, ch_type = None,
      ch_timelineStart = None, ch_inPoint = None, ch_duration = None, ch_transform = None,
      ch_zIndex = None, ch_label = None, ch_textData = None, ch_transition = None,
      ch_volume = None\<rparr>"

record TrackChanges =
  tch_id :: "rat option"
  tch_type :: "TrackType option"
  tch_name :: "string option"
  tch_isMuted :: "bool option"
  tch_isHidden :: "bool option"

record SmartPayload =
  sp_assetId :: "string option"
  sp_trackId :: rat
  sp_duration :: rat
  sp_type :: ClipType
  sp_name :: string
  sp_textData :: "TextData option"

datatype Action =
    ADD_ASSET MediaAsset
  | ADD_CLIP Clip
  | ADD_CLIP_SMART SmartPayload
  | UPDATE_CLIP string ClipChanges
  | REMOVE_CLIP string
  | SET_PLAYHEAD rat
  | TOGGLE_PLAYBACK
  | SELECT_CLIP "string option"
  | SET_ZOOM rat
  | UPDATE_TRACK rat TrackChanges
  | SET_CANVAS_SIZE CanvasSize

subsection \<open>Initial state\<close>

text \<open>
  \<open>DEFAULT_DURATION\<close> is imported from the constants module, which is not part of the
  sources at hand: it is a parameter. The second parameter is
  \<open>props?.initialCanvasSize\<close>.
\<close>

definition createInitialState :: "rat \<Rightarrow> CanvasSize option \<Rightarrow> TimelineState" where
  "createInitialState DEFAULT_DURATION initialCanvasSize =
     \<lparr>assets = [],
      tracks =
        [\<lparr>track_id = 3, track_type = Track_overlay, track_name = ''Text/FX'',
           isMuted = False, isHidden = False\<rparr>,
         \<lparr>track_id = 2, track_type = Track_video, track_name = ''Layer 3'',
           isMuted = False, isHidden = False\<rparr>,
         \<lparr>track_id = 1, track_type = Track_video, track_name = ''Layer 2'',
           isMuted = False, isHidden = False\<rparr>,
         \<lparr>track_id = 0, track_type = Track_video, track_name = ''Layer 1'',
           isMuted = False, isHidden = False\<rparr>,
         \<lparr>track_id = - 1, track_type = Track_audio, track_name = ''Audio 1'',
           isMuted = False, isHidden = False\<rparr>],
      clips = [],
      state_duration = DEFAULT_DURATION,
      currentTime = 0,
      isPlaying = False,
      selectedClipId = None,
      zoom = 50,
      canvasSize =
        (case initialCanvasSize of
           Some cs \<Rightarrow> cs
         | None \<Rightarrow> \<lparr>width = 1920, height = 1080, canvas_name = ''1080p''\<rparr>)\<rparr>"

subsection \<open>Gap finder\<close>

text \<open>
  The body of the \<open>for\<close> loop of \<open>findNextFreeSlot\<close>, as a recursion over the sorted
  clips of the track with \<open>proposedStart\<close> as accumulator.
\<close>

fun slotLoop :: "rat \<Rightarrow> rat \<Rightarrow> Clip list \<Rightarrow> rat" where
  "slotLoop dur proposedStart [] = proposedStart"
| "slotLoop dur proposedStart (clip # rest) =
     (let clipEnd = timelineStart clip + duration clip;
          newEnd = proposedStart + dur
      in slotLoop dur
           (if timelineStart clip < newEnd \<and> clipEnd > proposedStart then clipEnd
            else proposedStart)
           rest)"

text \<open>
  \<open>Array.prototype.sort\<close> with a comparator \<open>(a, b) => key a - key b\<close> is a stable sort by
  the key; \<open>sort_key\<close> (insertion sort) computes the same list.
\<close>

definition trackClips :: "Clip jsobj \<Rightarrow> rat \<Rightarrow> Clip list" where
  "trackClips cs tid =
     sort_key timelineStart (filter (\<lambda>c. trackId c = tid) (objectValues cs))"

definition findNextFreeSlot :: "Clip jsobj \<Rightarrow> rat \<Rightarrow> rat \<Rightarrow> rat \<Rightarrow> rat" where
  "findNextFreeSlot cs tid dur preferredStart =
     slotLoop dur preferredStart (trackClips cs tid)"

subsection \<open>Reducer\<close>

text \<open>\<open>{ ...clip, ...changes }\<close>\<close>

definition applyChanges :: "Clip \<Rightarrow> ClipChanges \<Rightarrow> Clip" where
  "applyChanges clip ch =
     \<lparr>clip_id = (case ch_id ch of Some v \<Rightarrow> v | None \<Rightarrow> clip_id clip),
      assetId = (case ch_assetId ch of Some v \<Rightarrow> v | None \<Rightarrow> assetId clip),
      trackId = (case ch_trackId ch of Some v \<Rightarrow> v | None \<Rightarrow> trackId clip),
      clip_type = (case ch_type ch of Some v \<Rightarrow> v | None \<Rightarrow> clip_type clip),
      timelineStart =
        (case ch_timelineStart ch of Some v \<Rightarrow> v | None \<Rightarrow> timelineStart clip),
      inPoint = (case ch_inPoint ch of Some v \<Rightarrow> v | None \<Rightarrow> inPoint clip),
      duration = (case ch_duration ch of Some v \<Rightarrow> v | None \<Rightarrow> duration clip),
      transform = (case ch_transform ch of Some v \<Rightarrow> v | None \<Rightarrow> transform clip),
      zIndex = (case ch_zIndex ch of Some v \<Rightarrow> v | None \<Rightarrow> zIndex clip),
      label = (case ch_label ch of Some v \<Rightarrow> v | None \<Rightarrow> label clip),
      textData = (case ch_textData ch of Some v \<Rightarrow> v | None \<Rightarrow> textData clip),
      transition = (case ch_transition ch of Some v \<Rightarrow> v | None \<Rightarrow> transition clip),
      volume = (case ch_volume ch of Some v \<Rightarrow> v | None \<Rightarrow> volume clip)\<rparr>"

text \<open>\<open>{ ...t, ...changes }\<close>\<close>

definition applyTrackChanges :: "Track \<Rightarrow> TrackChanges \<Rightarrow> Track" where
  "applyTrackChanges t ch =
     \<lparr>track_id = (case tch_id ch of Some v \<Rightarrow> v | None \<Rightarrow> track_id t),
      track_type = (case tch_type ch of Some v \<Rightarrow> v | None \<Rightarrow> track_type t),
      track_name = (case tch_name ch of Some v \<Rightarrow> v | None \<Rightarrow> track_name t),
      isMuted = (case tch_isMuted ch of Some v \<Rightarrow> v | None \<Rightarrow> isMuted t),
      isHidden = (case tch_isHidden ch of Some v \<Rightarrow> v | None \<Rightarrow> isHidden t)\<rparr>"

text \<open>
  The clip built by the \<open>ADD_CLIP_SMART\<close> branch. \<open>clipId\<close> is the value of
  \<open>Math.random().toString(36).substring(7)\<close>.
\<close>

definition smartClip :: "string \<Rightarrow> SmartPayload \<Rightarrow> rat \<Rightarrow> Clip" where
  "smartClip clipId p start =
     \<lparr>clip_id = clipId,
      assetId = sp_assetId p,
      trackId = sp_trackId p,
      clip_type = sp_type p,
      timelineStart = start,
      inPoint = 0,
      duration = sp_duration p,
      transform = DEFAULT_TRANSFORM,
      zIndex = sp_trackId p,
      label = Some (sp_name p),
      textData = (if sp_type p = TEXT then sp_textData p else None),
      transition = Some \<lparr>inDuration = 0, outDuration = 0, transition_type = Fade\<rparr>,
      volume = Some 1\<rparr>"

text \<open>
  The reducer. Its first argument is the identifier that \<open>Math.random\<close> yields in the
  \<open>ADD_CLIP_SMART\<close> branch; no other branch reads it. The \<open>UPDATE_CLIP\<close> branch
  reads \<open>state.clips[id]\<close>: for an identifier in \<open>inheritedNames\<close> that no clip has,
  the code gets past its guard and stores an object with the fields of the change set
  only, which the record \<open>Clip\<close> cannot hold; the branch is modelled for identifiers
  outside \<open>inheritedNames\<close>.
\<close>

fun timelineReducer :: "string \<Rightarrow> TimelineState \<Rightarrow> Action \<Rightarrow> TimelineState" where
  "timelineReducer r state (ADD_ASSET payload) =
     state\<lparr>assets := obj_set (assets state) (asset_id payload) payload\<rparr>"
| "timelineReducer r state (ADD_CLIP payload) =
     state\<lparr>clips := obj_set (clips state) (clip_id payload) payload,
            state_duration :=
              max (state_duration state) (timelineStart payload + duration payload + 5),
            selectedClipId := Some (clip_id payload)\<rparr>"
| "timelineReducer r state (ADD_CLIP_SMART p) =
     (let start = findNextFreeSlot (clips state) (sp_trackId p) (sp_duration p)
                    (currentTime state);
          newClip = smartClip r p start
      in state\<lparr>clips := obj_set (clips state) r newClip,
               state_duration := max (state_duration state) (start + sp_duration p + 5),
               selectedClipId := Some r\<rparr>)"
| "timelineReducer r state (UPDATE_CLIP cid changes) =
     (case obj_get (clips state) cid of
        None \<Rightarrow> state
      | Some clip \<Rightarrow>
          (let updatedClip = applyChanges clip changes
           in state\<lparr>clips := obj_set (clips state) cid updatedClip,
                    state_duration :=
                      max (state_duration state)
                        (timelineStart updatedClip + duration updatedClip + 5)\<rparr>))"
| "timelineReducer r state (REMOVE_CLIP cid) =
     state\<lparr>clips := obj_delete (clips state) cid, selectedClipId := None\<rparr>"
| "timelineReducer r state (SET_PLAYHEAD t) = state\<lparr>currentTime := max 0 t\<rparr>"
| "timelineReducer r state TOGGLE_PLAYBACK = state\<lparr>isPlaying := \<not> isPlaying state\<rparr>"
| "timelineReducer r state (SELECT_CLIP sel) = state\<lparr>selectedClipId := sel\<rparr>"
| "timelineReducer r state (SET_ZOOM z) = state\<lparr>zoom := max 10 (min 200 z)\<rparr>"
| "timelineReducer r state (UPDATE_TRACK tid changes) =
     state\<lparr>tracks :=
              map (\<lambda>t. if track_id t = tid then applyTrackChanges t changes else t)
                (tracks state)\<rparr>"
| "timelineReducer r state (SET_CANVAS_SIZE cs) = state\<lparr>canvasSize := cs\<rparr>"

text \<open>The states the store can be in: the initial state and whatever a dispatch makes of one.\<close>

inductive reachable :: "rat \<Rightarrow> CanvasSize option \<Rightarrow> TimelineState \<Rightarrow> bool"
  for DEFAULT_DURATION :: rat and initialCanvasSize :: "CanvasSize option" where
  reachable_init: "reachable DEFAULT_DURATION initialCanvasSize
                     (createInitialState DEFAULT_DURATION initialCanvasSize)"
| reachable_step: "reachable DEFAULT_DURATION initialCanvasSize s \<Longrightarrow>
                   reachable DEFAULT_DURATION initialCanvasSize (timelineReducer r s a)"

section \<open>Rounded arithmetic\<close>

text \<open>
  The binary64 arithmetic of the language: the exact result rounded to the nearest
  double, ties to the even significand. Magnitudes are taken to stay below \<open>2^1024\<close>
  (no overflow).
\<close>

text \<open>The number of binary digits of a natural number.\<close>

fun bitlen :: "nat \<Rightarrow> nat" where
  "bitlen n = (if n = 0 then 0 else Suc (bitlen (n div 2)))"

declare bitlen.simps [simp del]

text \<open>The exponent \<open>e\<close> of a positive number \<open>x\<close>: \<open>2^e \<le> x < 2^(e + 1)\<close>.\<close>

definition expo :: "rat \<Rightarrow> int" where
  "expo x =
     (if 1 \<le> x then int (bitlen (nat \<lfloor>x\<rfloor>)) - 1
      else - int (bitlen (nat (\<lceil>1 / x\<rceil> - 1))))"

definition pow2 :: "int \<Rightarrow> rat" where
  "pow2 k = (if 0 \<le> k then 2 ^ nat k else 1 / 2 ^ nat (- k))"

text \<open>The nearest integer, a tie going to the even one.\<close>

definition roundEven :: "rat \<Rightarrow> int" where
  "roundEven q =
     (let f = \<lfloor>q\<rfloor>; r = q - of_int f
      in if r < 1 / 2 then f else if 1 / 2 < r then f + 1 else if even f then f else f + 1)"

text \<open>
  The double nearest to \<open>x\<close>: a multiple of \<open>2^(e - 52)\<close>, where \<open>e\<close> is the exponent of
  \<open>x\<close> and at least \<open>-1022\<close> (subnormal numbers).
\<close>

definition fl :: "rat \<Rightarrow> rat" where
  "fl x =
     (if x = 0 then 0
      else (let e = max (expo \<bar>x\<bar>) (- 1022); u = pow2 (e - 52)
            in of_int (roundEven (x / u)) * u))"

text \<open>\<open>x + y\<close>, \<open>x - y\<close> and \<open>x / y\<close> of the language (the divisor is not zero).\<close>

definition fadd :: "rat \<Rightarrow> rat \<Rightarrow> rat" where
  "fadd x y = fl (x + y)"

definition fsub :: "rat \<Rightarrow> rat \<Rightarrow> rat" where
  "fsub x y = fl (x - y)"

definition fdiv :: "rat \<Rightarrow> rat \<Rightarrow> rat" where
  "fdiv x y = fl (x / y)"

text \<open>The literal \<open>0.1\<close>.\<close>

definition tenth :: rat where
  "tenth = fl (1 / 10)"

section \<open>Drag resolution (components/Timeline/ClipItem.tsx)\<close>

datatype DragMode = MOVE | TRIM_START | TRIM_END

text \<open>\<open>initialValuesRef.current\<close>\<close>

record InitialValues =
  iv_start :: rat
  iv_duration :: rat
  iv_inPoint :: rat
  iv_trackId :: rat

text \<open>The refs of the component: \<open>dragModeRef\<close>, \<open>startXRef\<close>, \<open>initialValuesRef\<close>.\<close>

record DragRefs =
  dragModeRef :: "DragMode option"
  startXRef :: rat
  initialValuesRef :: InitialValues

record MouseEvent =
  clientX :: rat
  clientY :: rat

text \<open>What \<open>handleMouseDown\<close> stores in the refs (it also dispatches \<open>SELECT_CLIP\<close>).\<close>

definition handleMouseDown :: "Clip \<Rightarrow> MouseEvent \<Rightarrow> DragMode \<Rightarrow> DragRefs" where
  "handleMouseDown clip e mode =
     \<lparr>dragModeRef = Some mode,
      startXRef = clientX e,
      initialValuesRef =
        \<lparr>iv_start = timelineStart clip, iv_duration = duration clip,
         iv_inPoint = inPoint clip, iv_trackId = trackId clip\<rparr>\<rparr>"

text \<open>A string is truthy unless it is \<open>undefined\<close> or empty.\<close>

definition truthy :: "string option \<Rightarrow> bool" where
  "truthy s = (case s of None \<Rightarrow> False | Some v \<Rightarrow> v \<noteq> [])"

text \<open>"Determine Max Duration (if asset based)"\<close>

definition maxDurationOf :: "TimelineState \<Rightarrow> Clip \<Rightarrow> rat \<Rightarrow> rat" where
  "maxDurationOf state clip dur =
     (if truthy (assetId clip)
      then (case obj_get (assets state) (the (assetId clip)) of
              Some asset \<Rightarrow> asset_duration asset
            | None \<Rightarrow> dur)
      else 3600)"

text \<open>
  The target track of a move. \<open>timelineRect\<close> is the \<open>top\<close> of the optional prop;
  \<open>TRACK_HEIGHT\<close> and \<open>RULER_HEIGHT\<close> come from the constants module and are parameters.
  A division by a \<open>TRACK_HEIGHT\<close> of zero yields an infinity or NaN, which fails the
  range check.
\<close>

definition targetTrack ::
  "rat \<Rightarrow> rat \<Rightarrow> TimelineState \<Rightarrow> rat option \<Rightarrow> MouseEvent \<Rightarrow> rat \<Rightarrow> rat" where
  "targetTrack TRACK_HEIGHT RULER_HEIGHT state timelineRect e tid =
     (case timelineRect of
        None \<Rightarrow> tid
      | Some rectTop \<Rightarrow>
          (let relativeY = fsub (fsub (clientY e) rectTop) RULER_HEIGHT;
               targetTrackIndex = \<lfloor>fdiv relativeY TRACK_HEIGHT\<rfloor>
           in if TRACK_HEIGHT \<noteq> 0 \<and> targetTrackIndex \<ge> 0
                 \<and> targetTrackIndex < int (length (tracks state))
              then track_id (tracks state ! nat targetTrackIndex)
              else tid))"

text \<open>The clamping loop of the \<open>MOVE\<close> branch, with \<open>validStart\<close> as accumulator.\<close>

fun moveLoop :: "rat \<Rightarrow> rat \<Rightarrow> rat \<Rightarrow> rat \<Rightarrow> rat \<Rightarrow> Clip list \<Rightarrow> rat" where
  "moveLoop start dur proposedStart proposedEnd validStart [] = validStart"
| "moveLoop start dur proposedStart proposedEnd validStart (other # rest) =
     (let otherEnd = fadd (timelineStart other) (duration other);
          isOverlapping = (proposedStart < otherEnd \<and> proposedEnd > timelineStart other)
      in moveLoop start dur proposedStart proposedEnd
           (if isOverlapping
            then (if start < timelineStart other
                  then min validStart (fsub (timelineStart other) dur)
                  else max validStart otherEnd)
            else validStart)
           rest)"

definition moveChanges ::
  "TimelineState \<Rightarrow> Clip \<Rightarrow> InitialValues \<Rightarrow> rat \<Rightarrow> rat \<Rightarrow> ClipChanges" where
  "moveChanges state clip iv deltaSec newTrackId =
     (let proposedStart = max 0 (fadd (iv_start iv) deltaSec);
          proposedEnd = fadd proposedStart (iv_duration iv);
          otherClips =
            sort_key timelineStart
              (filter (\<lambda>c. trackId c = newTrackId \<and> clip_id c \<noteq> clip_id clip)
                 (objectValues (clips state)));
          validStart =
            moveLoop (iv_start iv) (iv_duration iv) proposedStart proposedEnd proposedStart
              otherClips
      in noChanges\<lparr>ch_timelineStart := Some validStart, ch_trackId := Some newTrackId,
                    ch_zIndex := Some newTrackId\<rparr>)"

text \<open>The other clips of the clip's own track, as both trim branches compute them.\<close>

definition otherClipsOnTrack :: "TimelineState \<Rightarrow> Clip \<Rightarrow> Clip list" where
  "otherClipsOnTrack state clip =
     filter (\<lambda>c. trackId c = trackId clip \<and> clip_id c \<noteq> clip_id clip)
       (objectValues (clips state))"

text \<open>\<open>xs[0]\<close>, which is \<open>undefined\<close> on an empty array.\<close>

definition first :: "'a list \<Rightarrow> 'a option" where
  "first xs = (case xs of [] \<Rightarrow> None | x # _ \<Rightarrow> Some x)"

text \<open>
  \<open>prevClip\<close>: of the other clips of the track that end at or before \<open>start\<close>, the
  first one in the order of descending \<open>timelineStart\<close>. The sort is a stable sort by
  the negated key.
\<close>

definition prevClipOf :: "TimelineState \<Rightarrow> Clip \<Rightarrow> rat \<Rightarrow> Clip option" where
  "prevClipOf state clip start =
     first (sort_key (\<lambda>c. - timelineStart c)
              (filter (\<lambda>c. fadd (timelineStart c) (duration c) \<le> start)
                 (otherClipsOnTrack state clip)))"

text \<open>
  \<open>nextClip\<close>: of the other clips of the track that start at or after the clip's end,
  the first one in the order of ascending \<open>timelineStart\<close>.
\<close>

definition nextClipOf :: "TimelineState \<Rightarrow> Clip \<Rightarrow> rat \<Rightarrow> rat \<Rightarrow> Clip option" where
  "nextClipOf state clip start dur =
     first (sort_key timelineStart
              (filter (\<lambda>c. timelineStart c \<ge> fadd start dur) (otherClipsOnTrack state clip)))"

text \<open>
  The \<open>TRIM_START\<close> branch; the result is
  \<open>(proposedInPoint, proposedDuration, proposedStart)\<close>. Each \<open>if\<close> of the source that
  assigns is one step of the \<open>let\<close> chain.
\<close>

definition trimStartValues ::
  "TimelineState \<Rightarrow> Clip \<Rightarrow> InitialValues \<Rightarrow> rat \<Rightarrow> rat \<times> rat \<times> rat" where
  "trimStartValues state clip iv deltaSec =
     (let start = iv_start iv; dur = iv_duration iv; inP = iv_inPoint iv;
          proposedInPoint = fadd inP deltaSec;
          proposedDuration = fsub dur deltaSec;
          (proposedInPoint, proposedDuration) =
            (if proposedInPoint < 0 then (0, fadd dur inP)
             else (proposedInPoint, proposedDuration));
          (proposedInPoint, proposedDuration) =
            (if proposedDuration < tenth then (fadd inP (fsub dur tenth), tenth)
             else (proposedInPoint, proposedDuration));
          proposedStart = fadd start (fsub proposedInPoint inP);
          (proposedInPoint, proposedDuration, proposedStart) =
            (case prevClipOf state clip start of
               None \<Rightarrow> (proposedInPoint, proposedDuration, proposedStart)
             | Some prevClip \<Rightarrow>
                 (let prevEnd = fadd (timelineStart prevClip) (duration prevClip)
                  in if proposedStart < prevEnd
                     then (let diff = fsub prevEnd proposedStart
                           in (fadd proposedInPoint diff, fsub proposedDuration diff, prevEnd))
                     else (proposedInPoint, proposedDuration, proposedStart)));
          (proposedInPoint, proposedDuration, proposedStart) =
            (if proposedStart < 0
             then (let diff = fsub 0 proposedStart
                   in (fadd proposedInPoint diff, fsub proposedDuration diff, 0))
             else (proposedInPoint, proposedDuration, proposedStart))
      in (proposedInPoint, proposedDuration, proposedStart))"

definition trimStartChanges ::
  "TimelineState \<Rightarrow> Clip \<Rightarrow> InitialValues \<Rightarrow> rat \<Rightarrow> ClipChanges" where
  "trimStartChanges state clip iv deltaSec =
     (case trimStartValues state clip iv deltaSec of
        (proposedInPoint, proposedDuration, proposedStart) \<Rightarrow>
          noChanges\<lparr>ch_inPoint := Some proposedInPoint,
                     ch_duration := Some proposedDuration,
                     ch_timelineStart := Some proposedStart\<rparr>)"

text \<open>The \<open>TRIM_END\<close> branch; the result is \<open>proposedDuration\<close>.\<close>

definition trimEndValue ::
  "TimelineState \<Rightarrow> Clip \<Rightarrow> InitialValues \<Rightarrow> rat \<Rightarrow> rat" where
  "trimEndValue state clip iv deltaSec =
     (let start = iv_start iv; dur = iv_duration iv; inP = iv_inPoint iv;
          maxDuration = maxDurationOf state clip dur;
          proposedDuration = fadd dur deltaSec;
          proposedDuration =
            (if fadd inP proposedDuration > maxDuration then fsub maxDuration inP
             else proposedDuration);
          proposedDuration = (if proposedDuration < tenth then tenth else proposedDuration)
      in case nextClipOf state clip start dur of
           None \<Rightarrow> proposedDuration
         | Some nextClip \<Rightarrow>
             (if fadd start proposedDuration > timelineStart nextClip
              then fsub (timelineStart nextClip) start
              else proposedDuration))"

definition trimEndChanges ::
  "TimelineState \<Rightarrow> Clip \<Rightarrow> InitialValues \<Rightarrow> rat \<Rightarrow> ClipChanges" where
  "trimEndChanges state clip iv deltaSec =
     noChanges\<lparr>ch_duration := Some (trimEndValue state clip iv deltaSec)\<rparr>"

text \<open>
  \<open>handleMouseMove\<close>: the action it dispatches, or \<open>None\<close> when no drag is in progress.
  \<open>state\<close> and \<open>clip\<close> are the values the handler closes over. The zoom is never
  zero in a state the store reaches: it starts at 50 and \<open>SET_ZOOM\<close> keeps it within
  10 and 200.
\<close>

definition handleMouseMove ::
  "rat \<Rightarrow> rat \<Rightarrow> TimelineState \<Rightarrow> Clip \<Rightarrow> rat option \<Rightarrow> DragRefs \<Rightarrow> MouseEvent
     \<Rightarrow> Action option" where
  "handleMouseMove TRACK_HEIGHT RULER_HEIGHT state clip timelineRect refs e =
     (case dragModeRef refs of
        None \<Rightarrow> None
      | Some mode \<Rightarrow>
          (let deltaX = fsub (clientX e) (startXRef refs);
               deltaSec = fdiv deltaX (zoom state);
               iv = initialValuesRef refs;
               changes =
                 (case mode of
                    MOVE \<Rightarrow>
                      moveChanges state clip iv deltaSec
                        (targetTrack TRACK_HEIGHT RULER_HEIGHT state timelineRect e
                           (iv_trackId iv))
                  | TRIM_START \<Rightarrow> trimStartChanges state clip iv deltaSec
                  | TRIM_END \<Rightarrow> trimEndChanges state clip iv deltaSec)
           in Some (UPDATE_CLIP (clip_id clip) changes)))"

text \<open>
  One pointer move of a drag that began on \<open>clip\<close> in \<open>state\<close>: the dispatched action
  goes through the reducer.
\<close>

definition dragStep ::
  "rat \<Rightarrow> rat \<Rightarrow> TimelineState \<Rightarrow> Clip \<Rightarrow> rat option \<Rightarrow> DragRefs \<Rightarrow> MouseEvent
     \<Rightarrow> TimelineState" where
  "dragStep TRACK_HEIGHT RULER_HEIGHT state clip timelineRect refs e =
     (case handleMouseMove TRACK_HEIGHT RULER_HEIGHT state clip timelineRect refs e of
        None \<Rightarrow> state
      | Some a \<Rightarrow> timelineReducer [] state a)"

section \<open>Filter-graph construction (FFmpegService.exportVideo)\<close>

text \<open>
  Everything \<open>exportVideo\<close> reads besides its \<open>state\<close> argument: the fields of the
  service object and the outcomes of the calls it awaits. A \<open>False\<close> outcome is a
  rejected promise.
\<close>

record Env =
  isLoaded :: bool
  fontLoaded :: bool
  fontFetchOk :: bool
  assetWriteOk :: "string \<Rightarrow> string \<Rightarrow> bool"
  execOk :: "string list \<Rightarrow> bool"
  outputFile :: "string option"

datatype ExportError =
    NotLoaded
  | AssetWriteFailed
  | TypeError
  | EncodingFailed
  | OutputMissing

text \<open>\<open>Object.values(state.clips).sort((a, b) => a.zIndex - b.zIndex)\<close>\<close>

definition activeClips :: "TimelineState \<Rightarrow> Clip list" where
  "activeClips state = sort_key zIndex (objectValues (clips state))"

text \<open>
  \<open>new Set(activeClips.map(c => c.assetId).filter(Boolean))\<close>: a set iterates in the
  order of first insertion.
\<close>

definition uniqueAssets :: "Clip list \<Rightarrow> string list" where
  "uniqueAssets cs =
     foldl (\<lambda>acc a. if a \<in> set acc then acc else acc @ [a]) []
       (map (\<lambda>c. the (assetId c)) (filter (\<lambda>c. truthy (assetId c)) cs))"

definition isAlnumDot :: "char \<Rightarrow> bool" where
  "isAlnumDot c =
     (c \<in> set ''abcdefghijklmnopqrstuvwxyzABCDEFGHIJKLMNOPQRSTUVWXYZ0123456789.'')"

text \<open>\<open>`asset_${assetId}_${asset.name.replace(/[^a-zA-Z0-9.]/g, '_')}`\<close>\<close>

definition assetFilename :: "string \<Rightarrow> MediaAsset \<Rightarrow> string" where
  "assetFilename aid asset =
     ''asset_'' @ aid @ ''_''
       @ map (\<lambda>c. if isAlnumDot c then c else CHR ''_'') (asset_name asset)"

text \<open>
  The loop that writes the asset files, with \<open>inputArgs\<close>, \<open>assetInputMap\<close> and
  \<open>inputIndex\<close> as accumulators. A rejected fetch or write ends the export.
\<close>

fun writeAssets ::
  "Env \<Rightarrow> TimelineState \<Rightarrow> string list \<Rightarrow> string list \<Rightarrow> (string \<times> nat) list \<Rightarrow> nat
     \<Rightarrow> ExportError + (string list \<times> (string \<times> nat) list)" where
  "writeAssets env state [] inputArgs assetInputMap inputIndex =
     Inr (inputArgs, assetInputMap)"
| "writeAssets env state (aid # rest) inputArgs assetInputMap inputIndex =
     (case obj_get (assets state) aid of
        None \<Rightarrow> writeAssets env state rest inputArgs assetInputMap inputIndex
      | Some asset \<Rightarrow>
          (let filename = assetFilename aid asset
           in if assetWriteOk env filename (asset_url asset)
              then writeAssets env state rest (inputArgs @ [''-i'', filename])
                     (assetInputMap @ [(aid, inputIndex)]) (inputIndex + 1)
              else Inl AssetWriteFailed))"

text \<open>\<open>s.replace(pat, rep)\<close> with a string pattern: the first occurrence only.\<close>

fun replaceFirst :: "string \<Rightarrow> string \<Rightarrow> string \<Rightarrow> string" where
  "replaceFirst pat rep [] = (if pat = [] then rep else [])"
| "replaceFirst pat rep (c # cs) =
     (if take (length pat) (c # cs) = pat then rep @ drop (length pat) (c # cs)
      else c # replaceFirst pat rep cs)"

text \<open>\<open>xs.join(sep)\<close>\<close>

fun join :: "string \<Rightarrow> string list \<Rightarrow> string" where
  "join sep [] = []"
| "join sep [x] = x"
| "join sep (x # y # rest) = x @ sep @ join sep (y # rest)"

text \<open>The variables the \<open>forEach\<close> callback assigns.\<close>

record GraphAcc =
  filterChain :: "string list"
  lastVideoLabel :: string
  audioMixLabels :: "string list"

definition quote :: string where
  "quote = [CHR 0x27]"

text \<open>\<open>enable='between(t,${timelineStart},${timelineStart + duration})'\<close>\<close>

definition enableBetween :: "(rat \<Rightarrow> string) \<Rightarrow> Clip \<Rightarrow> string" where
  "enableBetween fmt clip =
     ''enable='' @ quote @ ''between(t,'' @ fmt (timelineStart clip) @ '',''
       @ fmt (timelineStart clip + duration clip) @ '')'' @ quote"

text \<open>
  "VIDEO / IMAGE PROCESSING", for a clip whose asset has input index \<open>inputIdx\<close>.
  \<open>fmt\<close> is the conversion of a number to a string that a template literal applies.
\<close>

definition videoStage ::
  "(rat \<Rightarrow> string) \<Rightarrow> TimelineState \<Rightarrow> GraphAcc \<Rightarrow> Clip \<Rightarrow> nat \<Rightarrow> nat \<Rightarrow> GraphAcc" where
  "videoStage fmt state acc clip idx inputIdx =
     (let clipLabel = ''clip'' @ fmt (of_nat idx);
          t = transform clip;
          streamPrep =
            (if clip_type clip = IMAGE
             then ''['' @ fmt (of_nat inputIdx)
                    @ '':v]loop=loop=-1:size=1:start=0,trim=start=0:end=''
                    @ fmt (duration clip) @ '',setpts=PTS-STARTPTS''
             else ''['' @ fmt (of_nat inputIdx) @ '':v]trim='' @ fmt (inPoint clip) @ '':''
                    @ fmt (inPoint clip + duration clip) @ '',setpts=PTS-STARTPTS'');
          scaleFilter = ''scale=iw*'' @ fmt (scale t) @ '':ih*'' @ fmt (scale t);
          rotateFilter =
            ''rotate='' @ fmt (rotation t) @ ''*PI/180:c=none:ow=rotw('' @ fmt (rotation t)
              @ ''*PI/180):oh=roth('' @ fmt (rotation t) @ ''*PI/180)'';
          opacityFilter = ''colorchannelmixer=aa='' @ fmt (opacity t);
          fadeFilter =
            (case transition clip of
               None \<Rightarrow> []
             | Some tr \<Rightarrow>
                 (if inDuration tr > 0
                  then '',fade=t=in:st=0:d='' @ fmt (inDuration tr) @ '':alpha=1''
                  else [])
                 @ (if outDuration tr > 0
                    then '',fade=t=out:st='' @ fmt (duration clip - outDuration tr) @ '':d=''
                           @ fmt (outDuration tr) @ '':alpha=1''
                    else []));
          pushed =
            streamPrep @ '','' @ scaleFilter @ '','' @ rotateFilter @ '','' @ opacityFilter
              @ fadeFilter @ ''['' @ clipLabel @ ''_v]'';
          x = (transform_x t / 100) * width (canvasSize state);
          y = (transform_y t / 100) * height (canvasSize state);
          shifted =
            replaceFirst ''setpts=PTS-STARTPTS''
              (''setpts=PTS-STARTPTS+'' @ fmt (timelineStart clip) @ ''/TB'') pushed;
          overlay =
            lastVideoLabel acc @ ''['' @ clipLabel @ ''_v]overlay=x='' @ fmt x @ '':y=''
              @ fmt y @ '':'' @ enableBetween fmt clip @ ''[tmp_v'' @ fmt (of_nat idx) @ '']''
      in acc\<lparr>filterChain := filterChain acc @ [shifted, overlay],
              lastVideoLabel := ''[tmp_v'' @ fmt (of_nat idx) @ '']''\<rparr>)"

text \<open>
  \<open>content.replace(/:/g, '\\:').replace(/'/g, '').replace(/\n/g, ' ')\<close>: the three
  replacements one after the other.
\<close>

definition escapeText :: "string \<Rightarrow> string" where
  "escapeText s =
     map (\<lambda>c. if c = CHR 0x0A then CHR '' '' else c)
       (filter (\<lambda>c. c \<noteq> CHR 0x27)
          (concat (map (\<lambda>c. if c = CHR '':'' then [CHR 0x5C, CHR '':''] else [c]) s)))"

text \<open>"TEXT PROCESSING"\<close>

definition textStage ::
  "(rat \<Rightarrow> string) \<Rightarrow> TimelineState \<Rightarrow> GraphAcc \<Rightarrow> Clip \<Rightarrow> nat \<Rightarrow> TextData \<Rightarrow> GraphAcc" where
  "textStage fmt state acc clip idx td =
     (let textX = (transform_x (transform clip) / 100) * width (canvasSize state);
          textY = (transform_y (transform clip) / 100) * height (canvasSize state);
          escapedText = escapeText (content td);
          fontColor = replaceFirst ''#'' ''0x'' (color td);
          xExpr =
            (if align td = Align_right then fmt textX @ ''-text_w''
             else if align td = Align_center then fmt textX @ ''-(text_w/2)''
             else fmt textX);
          drawTextFilter =
            ''drawtext=fontfile=font.ttf:text='' @ quote @ escapedText @ quote
              @ '':fontcolor='' @ fontColor @ '':fontsize='' @ fmt (fontSize td) @ '':x=''
              @ xExpr @ '':y='' @ fmt textY @ '':'' @ enableBetween fmt clip
      in acc\<lparr>filterChain :=
                filterChain acc
                  @ [lastVideoLabel acc @ drawTextFilter @ ''[tmp_v'' @ fmt (of_nat idx) @ '']''],
              lastVideoLabel := ''[tmp_v'' @ fmt (of_nat idx) @ '']''\<rparr>)"

text \<open>"AUDIO PROCESSING", for a clip whose asset has input index \<open>inputIdx\<close>.\<close>

definition audioStage ::
  "(rat \<Rightarrow> string) \<Rightarrow> GraphAcc \<Rightarrow> Clip \<Rightarrow> nat \<Rightarrow> nat \<Rightarrow> GraphAcc" where
  "audioStage fmt acc clip idx inputIdx =
     (let audioLabel = ''[aud'' @ fmt (of_nat idx) @ '']'';
          volumeVal = (case volume clip of None \<Rightarrow> 1 | Some v \<Rightarrow> v);
          delayMs = timelineStart clip * 1000;
          audioFilter =
            ''['' @ fmt (of_nat inputIdx) @ '':a]atrim=start='' @ fmt (inPoint clip)
              @ '':end='' @ fmt (inPoint clip + duration clip)
              @ '',asetpts=PTS-STARTPTS,volume='' @ fmt volumeVal @ '',adelay=''
              @ fmt delayMs @ ''|'' @ fmt delayMs @ audioLabel
      in acc\<lparr>filterChain := filterChain acc @ [audioFilter],
              audioMixLabels := audioMixLabels acc @ [audioLabel]\<rparr>)"

text \<open>
  The \<open>forEach\<close> callback. A \<open>return\<close> of the source leaves the callback with the
  accumulators as they are at that point; reading \<open>asset.type\<close> of a missing asset
  throws.
\<close>

definition processClip ::
  "(rat \<Rightarrow> string) \<Rightarrow> TimelineState \<Rightarrow> (string \<times> nat) list \<Rightarrow> GraphAcc \<Rightarrow> Clip \<Rightarrow> nat
     \<Rightarrow> ExportError + GraphAcc" where
  "processClip fmt state assetInputMap acc clip idx =
     (let audioPart = (\<lambda>acc.
            if clip_type clip = AUDIO \<or> (clip_type clip = VIDEO \<and> volume clip \<noteq> Some 0)
            then (if \<not> truthy (assetId clip) then Inr acc
                  else case map_of assetInputMap (the (assetId clip)) of
                         None \<Rightarrow> Inr acc
                       | Some inputIdx \<Rightarrow>
                           (case obj_get (assets state) (the (assetId clip)) of
                              None \<Rightarrow> Inl TypeError
                            | Some asset \<Rightarrow>
                                if asset_type asset = Asset_image then Inr acc
                                else Inr (audioStage fmt acc clip idx inputIdx)))
            else Inr acc);
          textPart = (\<lambda>acc.
            case textData clip of
              Some td \<Rightarrow>
                if clip_type clip = TEXT then audioPart (textStage fmt state acc clip idx td)
                else audioPart acc
            | None \<Rightarrow> audioPart acc)
      in if clip_type clip = VIDEO \<or> clip_type clip = IMAGE
         then (if \<not> truthy (assetId clip) then Inr acc
               else case map_of assetInputMap (the (assetId clip)) of
                      None \<Rightarrow> Inr acc
                    | Some inputIdx \<Rightarrow> textPart (videoStage fmt state acc clip idx inputIdx))
         else textPart acc)"

text \<open>\<open>activeClips.forEach((clip, idx) => ...)\<close>\<close>

fun processClips ::
  "(rat \<Rightarrow> string) \<Rightarrow> TimelineState \<Rightarrow> (string \<times> nat) list \<Rightarrow> GraphAcc \<Rightarrow> nat
     \<Rightarrow> Clip list \<Rightarrow> ExportError + GraphAcc" where
  "processClips fmt state assetInputMap acc idx [] = Inr acc"
| "processClips fmt state assetInputMap acc idx (clip # rest) =
     (case processClip fmt state assetInputMap acc clip idx of
        Inl err \<Rightarrow> Inl err
      | Inr acc' \<Rightarrow> processClips fmt state assetInputMap acc' (idx + 1) rest)"

text \<open>Steps 3 and 4 of \<open>exportVideo\<close>: from the inputs to \<open>execArgs\<close>.\<close>

definition buildExecArgs ::
  "(rat \<Rightarrow> string) \<Rightarrow> TimelineState \<Rightarrow> string list \<Rightarrow> (string \<times> nat) list
     \<Rightarrow> ExportError + string list" where
  "buildExecArgs fmt state inputArgs assetInputMap =
     (let base =
            ''color=c=black:s='' @ fmt (width (canvasSize state)) @ ''x''
              @ fmt (height (canvasSize state)) @ '':d='' @ fmt (state_duration state)
              @ ''[base]'';
          acc0 = \<lparr>filterChain = [base], lastVideoLabel = ''[base]'', audioMixLabels = []\<rparr>
      in case processClips fmt state assetInputMap acc0 0 (activeClips state) of
           Inl err \<Rightarrow> Inl err
         | Inr acc \<Rightarrow>
             (let mapArgs = [''-map'', lastVideoLabel acc];
                  mixed = (audioMixLabels acc \<noteq> []);
                  chain =
                    (if mixed
                     then filterChain acc
                            @ [concat (audioMixLabels acc) @ ''amix=inputs=''
                                 @ fmt (of_nat (length (audioMixLabels acc)))
                                 @ '':duration=longest[outa]'']
                     else filterChain acc);
                  mapArgs = (if mixed then mapArgs @ [''-map'', ''[outa]''] else mapArgs);
                  complexFilter = join '';'' chain
              in Inr (inputArgs @ [''-filter_complex'', complexFilter] @ mapArgs
                        @ [''-c:v'', ''libx264'', ''-preset'', ''ultrafast'', ''-crf'', ''25'',
                           ''-shortest'', ''output.mp4''])))"

text \<open>
  \<open>exportVideo\<close> up to the call of \<open>ffmpeg.exec\<close>: the arguments it is called with, or
  the error thrown before. Loading the font changes \<open>fontLoaded\<close> only; a failure there
  is caught.
\<close>

definition exportCommand ::
  "Env \<Rightarrow> (rat \<Rightarrow> string) \<Rightarrow> TimelineState \<Rightarrow> ExportError + string list" where
  "exportCommand env fmt state =
     (if \<not> isLoaded env then Inl NotLoaded
      else case writeAssets env state (uniqueAssets (activeClips state)) [] [] 0 of
             Inl err \<Rightarrow> Inl err
           | Inr (inputArgs, assetInputMap) \<Rightarrow> buildExecArgs fmt state inputArgs assetInputMap)"

text \<open>The value of \<open>fontLoaded\<close> after an export that got past the first check.\<close>

definition fontLoadedAfter :: "Env \<Rightarrow> bool" where
  "fontLoadedAfter env = (if fontLoaded env then True else fontFetchOk env)"

text \<open>\<open>exportVideo\<close>: the bytes of the blob it resolves to, or the error it rejects with.\<close>

definition exportVideo ::
  "Env \<Rightarrow> (rat \<Rightarrow> string) \<Rightarrow> TimelineState \<Rightarrow> ExportError + string" where
  "exportVideo env fmt state =
     (case exportCommand env fmt state of
        Inl err \<Rightarrow> Inl err
      | Inr execArgs \<Rightarrow>
          if \<not> execOk env execArgs then Inl EncodingFailed
          else (case outputFile env of
                  None \<Rightarrow> Inl OutputMissing
                | Some data \<Rightarrow> Inr data))"

section \<open>Properties of states\<close>

text \<open>The half-open interval \<open>[s, s + d)\<close> and the interval a clip occupies on its track.\<close>

definition interval :: "rat \<Rightarrow> rat \<Rightarrow> rat set" where
  "interval s d = {s ..< s + d}"

definition clipInterval :: "Clip \<Rightarrow> rat set" where
  "clipInterval c = interval (timelineStart c) (duration c)"

definition clipsOnTrack :: "Clip jsobj \<Rightarrow> rat \<Rightarrow> Clip list" where
  "clipsOnTrack cs tid = filter (\<lambda>c. trackId c = tid) (objectValues cs)"

text \<open>No two different clips of the list occupy intersecting intervals.\<close>

definition noOverlap :: "Clip list \<Rightarrow> bool" where
  "noOverlap xs =
     (\<forall>c \<in> set xs. \<forall>d \<in> set xs. c \<noteq> d \<longrightarrow> clipInterval c \<inter> clipInterval d = {})"


section \<open>Example states\<close>

text \<open>A text layer of the given length for the given track, as \<open>addTextClip\<close> dispatches it.\<close>

definition textPayload :: "rat \<Rightarrow> rat \<Rightarrow> SmartPayload" where
  "textPayload tid dur =
     \<lparr>sp_assetId = None, sp_trackId = tid, sp_duration = dur, sp_type = TEXT,
      sp_name = ''Text Layer'', sp_textData = None\<rparr>"

text \<open>A clip of an asset for the given track, as \<open>addVideoClip\<close> and \<open>addImageClip\<close> dispatch it.\<close>

definition assetPayload :: "string \<Rightarrow> ClipType \<Rightarrow> rat \<Rightarrow> rat \<Rightarrow> SmartPayload" where
  "assetPayload aid ty tid dur =
     \<lparr>sp_assetId = Some aid, sp_trackId = tid, sp_duration = dur, sp_type = ty,
      sp_name = ''Clip'', sp_textData = None\<rparr>"

definition exampleAsset :: "string \<Rightarrow> AssetType \<Rightarrow> rat \<Rightarrow> MediaAsset" where
  "exampleAsset aid ty dur =
     \<lparr>asset_id = aid, asset_url = ''blob:'' @ aid, asset_type = ty, asset_duration = dur,
      asset_name = ''clip.mp4''\<rparr>"

text \<open>Dispatching a list of actions, each with the identifier \<open>Math.random\<close> yields for it.\<close>

fun dispatchAll :: "TimelineState \<Rightarrow> (string \<times> Action) list \<Rightarrow> TimelineState" where
  "dispatchAll s [] = s"
| "dispatchAll s ((r, a) # rest) = dispatchAll (timelineReducer r s a) rest"

text \<open>
  Track 0 with three text layers placed by the gap finder at the playhead:
  \<open>l\<close> on \<open>[0, 5)\<close>, \<open>r\<close> on \<open>[9, 12)\<close> and \<open>c\<close> on \<open>[20, 25)\<close>.
\<close>

definition threeClips :: TimelineState where
  "threeClips =
     dispatchAll (createInitialState 30 None)
       [(''l'', ADD_CLIP_SMART (textPayload 0 5)),
        ([], SET_PLAYHEAD 9),
        (''r'', ADD_CLIP_SMART (textPayload 0 3)),
        ([], SET_PLAYHEAD 20),
        (''c'', ADD_CLIP_SMART (textPayload 0 5))]"

text \<open>A pointer event with the given horizontal position.\<close>

definition pointerAt :: "rat \<Rightarrow> MouseEvent" where
  "pointerAt x = \<lparr>clientX = x, clientY = 0\<rparr>"

text \<open>
  Track 1 with one clip \<open>k\<close> of a ten-second video, placed as \<open>addVideoClip\<close> does:
  \<open>k\<close> is on \<open>[0, 10)\<close> with \<open>inPoint = 0\<close>.
\<close>

definition videoTen :: TimelineState where
  "videoTen =
     dispatchAll (createInitialState 30 None)
       [([], ADD_ASSET (exampleAsset ''v'' Asset_video 10)),
        (''k'', ADD_CLIP_SMART (assetPayload ''v'' VIDEO 1 10))]"



text \<open>A text layer with the given start, duration and \<open>inPoint\<close>.\<close>

definition textClipAt :: "string \<Rightarrow> rat \<Rightarrow> rat \<Rightarrow> rat \<Rightarrow> rat \<Rightarrow> Clip" where
  "textClipAt cid tid start dur inP = (smartClip cid (textPayload tid dur) start)\<lparr>inPoint := inP\<rparr>"








text \<open>The clip stored under an identifier (\<open>state.clips[id]\<close>, which the examples know to exist).\<close>

definition clipOf :: "TimelineState \<Rightarrow> string \<Rightarrow> Clip" where
  "clipOf s cid = the (obj_get (clips s) cid)"

text \<open>The values \<open>handleMouseDown\<close> records when a drag of the clip \<open>cid\<close> of \<open>s\<close> begins.\<close>

definition grab :: "TimelineState \<Rightarrow> string \<Rightarrow> InitialValues" where
  "grab s cid = initialValuesRef (handleMouseDown (clipOf s cid) (pointerAt 0) MOVE)"

text \<open>
  A drag of the clip \<open>cid\<close> of \<open>s\<close> in the given mode: the button goes down at
  \<open>x0\<close> and the pointer moves to \<open>x1\<close>; the component has no \<open>timelineRect\<close>.
\<close>

definition dragTH ::
  "rat \<Rightarrow> rat \<Rightarrow> TimelineState \<Rightarrow> string \<Rightarrow> DragMode \<Rightarrow> rat \<Rightarrow> rat \<Rightarrow> TimelineState" where
  "dragTH TRACK_HEIGHT RULER_HEIGHT s cid mode x0 x1 =
     dragStep TRACK_HEIGHT RULER_HEIGHT s (clipOf s cid) None
       (handleMouseDown (clipOf s cid) (pointerAt x0) mode) (pointerAt x1)"

text \<open>Two environments: in the second the font is already loaded and every fetch succeeds too.\<close>

definition envFresh :: Env where
  "envFresh =
     \<lparr>isLoaded = True, fontLoaded = False, fontFetchOk = False,
      assetWriteOk = (\<lambda>f u. True), execOk = (\<lambda>args. True), outputFile = Some []\<rparr>"

definition envWarm :: Env where
  "envWarm =
     \<lparr>isLoaded = True, fontLoaded = True, fontFetchOk = True,
      assetWriteOk = (\<lambda>f u. True), execOk = (\<lambda>args. False), outputFile = None\<rparr>"

text \<open>
  A number-to-string conversion for the examples: decimal digits for a natural number,
  a question mark for any other number.
\<close>

fun showNat :: "nat \<Rightarrow> string" where
  "showNat n =
     (if n < 10 then [''0123456789'' ! n]
      else showNat (n div 10) @ [''0123456789'' ! (n mod 10)])"

definition exampleFmt :: "rat \<Rightarrow> string" where
  "exampleFmt q = (if q = of_int \<lfloor>q\<rfloor> \<and> 0 \<le> q then showNat (nat \<lfloor>q\<rfloor>) else ''?'')"

section \<open>Auxiliary facts\<close>

subsection \<open>Dictionaries\<close>





lemma obj_get_delete:
  "obj_get (obj_delete obj k) k' = (if k' = k then None else obj_get obj k')"
  by (induction obj) (auto simp: obj_get_def obj_delete_def)

lemma obj_delete_absent: "obj_get obj k = None \<Longrightarrow> obj_delete obj k = obj"
proof -
  assume "obj_get obj k = None"
  then have "\<forall>p \<in> set obj. fst p \<noteq> k"
    by (metis obj_get_def map_of_eq_None_iff image_eqI)
  then show ?thesis by (simp add: obj_delete_def)
qed




lemma isFalsy_jsIndex:
  "isFalsy (jsIndex obj k) \<longleftrightarrow> obj_get obj k = None \<and> k \<notin> set inheritedNames"
  by (simp add: isFalsy_def jsIndex_def obj_get_def split: option.splits)

lemma first_mem: "first xs = Some x \<Longrightarrow> x \<in> set xs"
  by (cases xs) (auto simp: first_def)


subsection \<open>Rounded arithmetic\<close>

lemma floor_rat_numeral: "\<lfloor>(numeral a :: rat) / numeral b\<rfloor> = numeral a div numeral b"
  using floor_divide_of_int_eq [of "numeral a" "numeral b", where ?'a = rat] by simp

lemma floor_rat_neg_numeral:
  "\<lfloor>- ((numeral a :: rat) / numeral b)\<rfloor> = - numeral a div numeral b"
  using floor_divide_of_int_eq [of "- numeral a" "numeral b", where ?'a = rat] by simp

lemma ceiling_rat_numeral:
  "\<lceil>(numeral a :: rat) / numeral b\<rceil> = - (- numeral a div numeral b)"
  unfolding ceiling_def by (simp add: floor_rat_neg_numeral)

text \<open>
  Rules that evaluate the rounding of a number given in digits and leave every other
  term alone.
\<close>

lemma bitlen_zero: "bitlen 0 = 0"
  by (simp add: bitlen.simps)

lemma bitlen_one: "bitlen 1 = 1" "bitlen (Suc 0) = 1"
  by (simp_all add: bitlen.simps)

lemma bitlen_numeral: "bitlen (numeral k) = Suc (bitlen (numeral k div 2))"
  by (subst bitlen.simps) simp

lemma fl_zero: "fl 0 = 0"
  by (simp add: fl_def)

lemmas fl_digits =
  fl_def [of "numeral a"] fl_def [of "- numeral a"]
  fl_def [of "numeral a / numeral b"] fl_def [of "- (numeral a / numeral b)"]
  fl_def [of "1 / numeral b"] fl_def [of "- (1 / numeral b)"]
  fl_def [of 1] fl_def [of "- 1"]
  for a b

lemmas dbl_simps =
  fl_zero fl_digits expo_def pow2_def roundEven_def bitlen_zero bitlen_one bitlen_numeral
  fadd_def fsub_def fdiv_def tenth_def
  floor_rat_numeral floor_rat_neg_numeral ceiling_rat_numeral





subsection \<open>Evaluation of the examples\<close>

lemmas obj_simps =
  objectValues_def obj_set_def obj_has_def obj_get_def obj_delete_def isArrayIndex_def
  isDigit_def digitsValue_def digitVal_def

lemmas example_simps =
  createInitialState_def textPayload_def assetPayload_def exampleAsset_def smartClip_def
  findNextFreeSlot_def trackClips_def Let_def

lemmas drag_simps =
  dragTH_def dragStep_def handleMouseMove_def handleMouseDown_def pointerAt_def clipOf_def
  moveChanges_def trimStartChanges_def trimStartValues_def trimEndChanges_def
  trimEndValue_def maxDurationOf_def truthy_def prevClipOf_def nextClipOf_def
  otherClipsOnTrack_def first_def targetTrack_def noChanges_def applyChanges_def grab_def
  textClipAt_def dbl_simps


lemma threeClips_track0:
  "map (\<lambda>c. (clip_id c, timelineStart c, duration c)) (clipsOnTrack (clips threeClips) 0)
   = [(''l'', 0, 5), (''r'', 9, 3), (''c'', 20, 5)]"
  by (simp add: threeClips_def clipsOnTrack_def obj_simps example_simps)

lemma threeClips_noOverlap: "noOverlap (clipsOnTrack (clips threeClips) 0)"
  by (simp add: noOverlap_def clipInterval_def interval_def threeClips_def clipsOnTrack_def
      obj_simps example_simps)

lemma threeClips_positive: "\<forall>c \<in> set (clipsOnTrack (clips threeClips) 0). 0 < duration c"
  by (simp add: threeClips_def clipsOnTrack_def obj_simps example_simps)

subsection \<open>Intervals\<close>

lemma interval_disjoint_iff:
  assumes "0 < d" "0 < e"
  shows "interval a d \<inter> interval b e = {} \<longleftrightarrow> \<not> (b < a + d \<and> a < b + e)"
proof
  assume dis: "interval a d \<inter> interval b e = {}"
  show "\<not> (b < a + d \<and> a < b + e)"
  proof
    assume ov: "b < a + d \<and> a < b + e"
    have "max a b \<in> interval a d \<inter> interval b e"
      using ov assms by (auto simp: interval_def max_def)
    with dis show False by blast
  qed
next
  assume "\<not> (b < a + d \<and> a < b + e)"
  then show "interval a d \<inter> interval b e = {}"
    by (auto simp: interval_def)
qed

subsection \<open>The gap finder's loop\<close>

lemma slotLoop_ge: "p \<le> slotLoop d p xs"
proof (induction xs arbitrary: p)
  case Nil
  show ?case by simp
next
  case (Cons c xs)
  let ?p' = "if timelineStart c < p + d \<and> timelineStart c + duration c > p
             then timelineStart c + duration c else p"
  have "p \<le> ?p'" by simp
  also have "?p' \<le> slotLoop d ?p' xs" by (rule Cons.IH)
  finally show ?case by (simp add: Let_def)
qed

lemma slotLoop_cases:
  "slotLoop d p xs = p \<or> (\<exists>e \<in> set xs. slotLoop d p xs = timelineStart e + duration e)"
proof (induction xs arbitrary: p)
  case Nil
  show ?case by simp
next
  case (Cons c xs)
  let ?p' = "if timelineStart c < p + d \<and> timelineStart c + duration c > p
             then timelineStart c + duration c else p"
  have eq: "slotLoop d p (c # xs) = slotLoop d ?p' xs" by (simp add: Let_def)
  from Cons.IH [of ?p'] show ?case
    unfolding eq by (auto split: if_splits)
qed

lemma slotLoop_least:
  assumes "p \<le> s"
    and "\<forall>c \<in> set xs. \<not> (timelineStart c < s + d \<and> s < timelineStart c + duration c)"
  shows "slotLoop d p xs \<le> s"
  using assms
proof (induction xs arbitrary: p)
  case Nil
  then show ?case by simp
next
  case (Cons c xs)
  let ?p' = "if timelineStart c < p + d \<and> timelineStart c + duration c > p
             then timelineStart c + duration c else p"
  have "?p' \<le> s" using Cons.prems by auto
  then have "slotLoop d ?p' xs \<le> s" using Cons.IH [of ?p'] Cons.prems by simp
  then show ?case by (simp add: Let_def)
qed

lemma slotLoop_free:
  assumes "sorted (map timelineStart xs)"
    and "\<forall>c \<in> set xs. 0 < duration c"
    and "\<forall>c \<in> set xs. \<forall>e \<in> set xs. c \<noteq> e \<longrightarrow>
           \<not> (timelineStart e < timelineStart c + duration c
              \<and> timelineStart c < timelineStart e + duration e)"
  shows "\<forall>c \<in> set xs. \<not> (timelineStart c < slotLoop d p xs + d
                          \<and> slotLoop d p xs < timelineStart c + duration c)"
  using assms
proof (induction xs arbitrary: p)
  case Nil
  show ?case by simp
next
  case (Cons c xs)
  let ?p' = "if timelineStart c < p + d \<and> timelineStart c + duration c > p
             then timelineStart c + duration c else p"
  let ?r = "slotLoop d ?p' xs"
  have eq: "slotLoop d p (c # xs) = ?r" by (simp add: Let_def)
  have IH: "\<forall>e \<in> set xs. \<not> (timelineStart e < ?r + d \<and> ?r < timelineStart e + duration e)"
    using Cons.IH [of ?p'] Cons.prems by simp
  have ge: "?p' \<le> ?r" by (rule slotLoop_ge)
  have head: "\<not> (timelineStart c < ?r + d \<and> ?r < timelineStart c + duration c)"
  proof (cases "timelineStart c < p + d \<and> timelineStart c + duration c > p")
    case True
    then show ?thesis using ge by simp
  next
    case False
    then have r_eq: "?r = slotLoop d p xs" by auto
    have nov: "timelineStart c + duration c \<le> p \<or> p + d \<le> timelineStart c"
      using False by auto
    have r_ge: "p \<le> slotLoop d p xs" by (rule slotLoop_ge)
    from slotLoop_cases [of d p xs]
    consider "slotLoop d p xs = p"
      | e where "e \<in> set xs" "slotLoop d p xs = timelineStart e + duration e"
      by blast
    then have "\<not> (timelineStart c < slotLoop d p xs + d
                 \<and> slotLoop d p xs < timelineStart c + duration c)"
    proof cases
      case 1
      then show ?thesis using nov by auto
    next
      case 2
      show ?thesis
      proof (cases "e = c")
        case True
        then show ?thesis using 2 by simp
      next
        case ne: False
        have le: "timelineStart c \<le> timelineStart e"
          using Cons.prems(1) 2(1) by auto
        have pos: "0 < duration e" "0 < duration c" using Cons.prems(2) 2(1) by auto
        have "\<not> (timelineStart e < timelineStart c + duration c
                \<and> timelineStart c < timelineStart e + duration e)"
          using Cons.prems(3) 2(1) ne by auto
        then have "timelineStart c + duration c \<le> timelineStart e"
          using le pos by auto
        then show ?thesis using 2(2) pos by auto
      qed
    qed
    then show ?thesis unfolding r_eq .
  qed
  show ?case unfolding eq using head IH by simp
qed

subsection \<open>Neighbours of a trimmed clip\<close>



lemma nextClipOf_mem:
  assumes "nextClipOf state clip start dur = Some n"
  shows "n \<in> set (otherClipsOnTrack state clip)"
    and "fadd start dur \<le> timelineStart n"
proof -
  have "n \<in> set (sort_key timelineStart
              (filter (\<lambda>c. timelineStart c \<ge> fadd start dur) (otherClipsOnTrack state clip)))"
    using assms unfolding nextClipOf_def by (rule first_mem)
  then show "n \<in> set (otherClipsOnTrack state clip)"
    and "fadd start dur \<le> timelineStart n"
    by simp_all
qed








subsection \<open>The trailing margin\<close>


subsection \<open>The asset loop and the clip loop of the export\<close>

lemma writeAssets_env_independent:
  assumes "writeAssets env1 state ids inputArgs m i = Inr r1"
    and "writeAssets env2 state ids inputArgs m i = Inr r2"
  shows "r1 = r2"
  using assms
proof (induction ids arbitrary: inputArgs m i)
  case Nil
  then show ?case by simp
next
  case (Cons aid rest)
  show ?case
  proof (cases "obj_get (assets state) aid")
    case None
    with Cons show ?thesis by simp
  next
    case (Some asset)
    let ?f = "assetFilename aid asset"
    have ok1: "assetWriteOk env1 ?f (asset_url asset)"
      using Cons.prems(1) Some by (auto simp: Let_def split: if_splits)
    have ok2: "assetWriteOk env2 ?f (asset_url asset)"
      using Cons.prems(2) Some by (auto simp: Let_def split: if_splits)
    show ?thesis
      using Cons.IH [of "inputArgs @ [''-i'', ?f]" "m @ [(aid, i)]" "i + 1"]
        Cons.prems Some ok1 ok2 by (simp add: Let_def)
  qed
qed

lemma writeAssets_keys:
  assumes "writeAssets env state ids inputArgs m i = Inr (inputArgs', m')"
    and "\<forall>k \<in> fst ` set m. obj_get (assets state) k \<noteq> None"
  shows "\<forall>k \<in> fst ` set m'. obj_get (assets state) k \<noteq> None"
  using assms
proof (induction ids arbitrary: inputArgs m i)
  case Nil
  then show ?case by simp
next
  case (Cons aid rest)
  show ?case
  proof (cases "obj_get (assets state) aid")
    case None
    with Cons show ?thesis by simp
  next
    case (Some asset)
    let ?f = "assetFilename aid asset"
    have ok: "assetWriteOk env ?f (asset_url asset)"
      using Cons.prems(1) Some by (auto simp: Let_def split: if_splits)
    have "\<forall>k \<in> fst ` set (m @ [(aid, i)]). obj_get (assets state) k \<noteq> None"
      using Cons.prems(2) Some by auto
    then show ?thesis
      using Cons.IH [of "inputArgs @ [''-i'', ?f]" "m @ [(aid, i)]" "i + 1"]
        Cons.prems(1) Some ok by (simp add: Let_def)
  qed
qed

lemma writeAssets_succeeds:
  assumes "\<forall>f u. assetWriteOk env f u"
  shows "\<exists>r. writeAssets env state ids inputArgs m i = Inr r"
  using assms
  by (induction ids arbitrary: inputArgs m i) (auto simp: Let_def split: option.splits)

lemma processClip_succeeds:
  assumes "\<forall>k \<in> fst ` set m. obj_get (assets state) k \<noteq> None"
  shows "\<exists>acc'. processClip fmt state m acc clip idx = Inr acc'"
proof -
  have known: "\<And>k i. map_of m k = Some i \<Longrightarrow> obj_get (assets state) k = None \<Longrightarrow> False"
    using assms by (metis map_of_SomeD fst_conv image_eqI)
  show ?thesis
    unfolding processClip_def Let_def
    by (auto split: option.splits dest: known)
qed

lemma processClips_succeeds:
  assumes "\<forall>k \<in> fst ` set m. obj_get (assets state) k \<noteq> None"
  shows "\<exists>acc'. processClips fmt state m acc idx cs = Inr acc'"
proof (induction cs arbitrary: acc idx)
  case Nil
  show ?case by simp
next
  case (Cons c cs)
  obtain acc1 where "processClip fmt state m acc c idx = Inr acc1"
    using processClip_succeeds [OF assms] by blast
  then show ?case using Cons.IH [of acc1 "idx + 1"] by simp
qed

lemma buildExecArgs_succeeds:
  assumes "\<forall>k \<in> fst ` set m. obj_get (assets state) k \<noteq> None"
  shows "\<exists>g. buildExecArgs fmt state inputArgs m = Inr g"
proof -
  obtain acc where
    "processClips fmt state m
       \<lparr>filterChain =
          [''color=c=black:s='' @ fmt (width (canvasSize state)) @ ''x''
             @ fmt (height (canvasSize state)) @ '':d='' @ fmt (state_duration state)
             @ ''[base]''],
        lastVideoLabel = ''[base]'', audioMixLabels = []\<rparr>
       0 (activeClips state) = Inr acc"
    using processClips_succeeds [OF assms] by blast
  then show ?thesis
    unfolding buildExecArgs_def Let_def by simp
qed

section \<open>Free-slot search\<close>

text \<open>
  Claim C1. On a track whose clips have positive durations and pairwise disjoint
  intervals, and for a new clip of positive duration, the start \<open>s\<close> that
  \<open>findNextFreeSlot\<close> returns is at least \<open>preferredStart\<close>, the interval
  \<open>[s, s + duration)\<close> meets the interval of no clip of the track, and \<open>s\<close> is the
  least start with these two properties.
\<close>

theorem findNextFreeSlot_earliest_free:
  assumes "noOverlap (clipsOnTrack cs tid)"
    and "\<forall>c \<in> set (clipsOnTrack cs tid). 0 < duration c"
    and "0 < dur"
  shows "preferredStart \<le> findNextFreeSlot cs tid dur preferredStart
       \<and> (\<forall>c \<in> set (clipsOnTrack cs tid).
            interval (findNextFreeSlot cs tid dur preferredStart) dur \<inter> clipInterval c = {})
       \<and> (\<forall>s. preferredStart \<le> s
              \<and> (\<forall>c \<in> set (clipsOnTrack cs tid). interval s dur \<inter> clipInterval c = {})
            \<longrightarrow> findNextFreeSlot cs tid dur preferredStart \<le> s)"
proof -
  let ?xs = "trackClips cs tid"
  let ?r = "slotLoop dur preferredStart ?xs"
  have set_eq: "set ?xs = set (clipsOnTrack cs tid)"
    by (simp add: trackClips_def clipsOnTrack_def)
  have srt: "sorted (map timelineStart ?xs)"
    by (simp add: trackClips_def)
  have pos: "\<forall>c \<in> set ?xs. 0 < duration c"
    using assms(2) set_eq by simp
  have meets: "interval s dur \<inter> clipInterval c = {}
      \<longleftrightarrow> \<not> (timelineStart c < s + dur \<and> s < timelineStart c + duration c)"
    if "c \<in> set ?xs" for c s
    using interval_disjoint_iff [of dur "duration c" s "timelineStart c"] pos that assms(3)
    by (simp add: clipInterval_def)
  have dis: "\<forall>c \<in> set ?xs. \<forall>e \<in> set ?xs. c \<noteq> e \<longrightarrow>
           \<not> (timelineStart e < timelineStart c + duration c
              \<and> timelineStart c < timelineStart e + duration e)"
  proof (intro ballI impI)
    fix c e assume ce: "c \<in> set ?xs" "e \<in> set ?xs" "c \<noteq> e"
    then have "clipInterval c \<inter> clipInterval e = {}"
      using assms(1) set_eq by (simp add: noOverlap_def)
    then show "\<not> (timelineStart e < timelineStart c + duration c
              \<and> timelineStart c < timelineStart e + duration e)"
      using interval_disjoint_iff
        [of "duration c" "duration e" "timelineStart c" "timelineStart e"] pos ce
      by (simp add: clipInterval_def)
  qed
  have free: "\<forall>c \<in> set ?xs. interval ?r dur \<inter> clipInterval c = {}"
  proof
    fix c assume c: "c \<in> set ?xs"
    have "\<not> (timelineStart c < ?r + dur \<and> ?r < timelineStart c + duration c)"
      using slotLoop_free [OF srt pos dis, of dur preferredStart] c by blast
    then show "interval ?r dur \<inter> clipInterval c = {}"
      using meets [OF c] by simp
  qed
  have least: "\<forall>s. preferredStart \<le> s
              \<and> (\<forall>c \<in> set ?xs. interval s dur \<inter> clipInterval c = {})
            \<longrightarrow> ?r \<le> s"
  proof (intro allI impI)
    fix s
    assume s: "preferredStart \<le> s
      \<and> (\<forall>c \<in> set ?xs. interval s dur \<inter> clipInterval c = {})"
    have "\<forall>c \<in> set ?xs. \<not> (timelineStart c < s + dur \<and> s < timelineStart c + duration c)"
      using s meets by blast
    then show "?r \<le> s"
      using slotLoop_least s by blast
  qed
  show ?thesis
    unfolding findNextFreeSlot_def using slotLoop_ge [of preferredStart dur ?xs] free least
    unfolding set_eq by blast
qed

theorem findNextFreeSlot_earliest_free_witness:
  "noOverlap (clipsOnTrack (clips threeClips) 0)
   \<and> map duration (clipsOnTrack (clips threeClips) 0) = [5, 3, 5]
   \<and> findNextFreeSlot (clips threeClips) 0 5 3 = 12
   \<and> (3::rat) \<le> findNextFreeSlot (clips threeClips) 0 5 3
   \<and> list_all (\<lambda>c. interval (findNextFreeSlot (clips threeClips) 0 5 3) 5 \<inter> clipInterval c = {})
         (clipsOnTrack (clips threeClips) 0)
   \<and> findNextFreeSlot (clips threeClips) 0 5 3 \<le> 12"
proof -
  have slot: "findNextFreeSlot (clips threeClips) 0 5 3 = 12"
    by (simp add: threeClips_def obj_simps example_simps)
  have durs: "map duration (clipsOnTrack (clips threeClips) 0) = [5, 3, 5]"
    by (simp add: threeClips_def clipsOnTrack_def obj_simps example_simps)
  have five: "(0::rat) < 5" by simp
  note fact = findNextFreeSlot_earliest_free
    [OF threeClips_noOverlap threeClips_positive five, of 3]
  have ge: "(3::rat) \<le> findNextFreeSlot (clips threeClips) 0 5 3"
    by (rule fact [THEN conjunct1])
  have free: "\<forall>c \<in> set (clipsOnTrack (clips threeClips) 0).
      interval (findNextFreeSlot (clips threeClips) 0 5 3) 5 \<inter> clipInterval c = {}"
    by (rule fact [THEN conjunct2, THEN conjunct1])
  have free12: "\<forall>c \<in> set (clipsOnTrack (clips threeClips) 0).
      interval 12 5 \<inter> clipInterval c = {}"
    using free unfolding slot .
  have least: "findNextFreeSlot (clips threeClips) 0 5 3 \<le> 12"
    using fact [THEN conjunct2, THEN conjunct2, rule_format, of 12] free12 by simp
  show ?thesis
    using threeClips_noOverlap durs slot ge free least by (simp add: list_all_iff)
qed

section \<open>Moving a clip\<close>

text \<open>
  Claim C2. The claim is that no sequence of move and trim proposals applied through
  \<open>UPDATE_CLIP\<close> makes two clips of a track overlap. The \<open>MOVE\<close> branch tests the other
  clips against the proposed interval only and never against the clamped one: in
  \<open>threeClips\<close>, where no two clips of track 0 overlap, dragging \<open>c\<close> from \<open>[20, 25)\<close> by
  850 pixels to the left (17 seconds at the zoom of 50) proposes \<open>[3, 8)\<close>, which meets
  \<open>l = [0, 5)\<close> only; the clamp to the end of \<open>l\<close> puts \<open>c\<close> on \<open>[5, 10)\<close>, which
  meets \<open>r = [9, 12)\<close>.
\<close>

theorem move_clamp_overlaps_neighbour:
  "map (\<lambda>c. (clip_id c, timelineStart c, duration c)) (clipsOnTrack (clips threeClips) 0)
     = [(''l'', 0, 5), (''r'', 9, 3), (''c'', 20, 5)]
   \<and> handleMouseMove TRACK_HEIGHT RULER_HEIGHT threeClips (clipOf threeClips ''c'') None
         (handleMouseDown (clipOf threeClips ''c'') (pointerAt 1000) MOVE) (pointerAt 150)
       = Some (UPDATE_CLIP ''c''
           (noChanges\<lparr>ch_timelineStart := Some 5, ch_trackId := Some 0, ch_zIndex := Some 0\<rparr>))
   \<and> map (\<lambda>c. (clip_id c, timelineStart c, duration c))
        (clipsOnTrack (clips (dragTH TRACK_HEIGHT RULER_HEIGHT threeClips ''c'' MOVE 1000 150)) 0)
      = [(''l'', 0, 5), (''r'', 9, 3), (''c'', 5, 5)]
   \<and> 9 \<in> clipInterval (clipOf (dragTH TRACK_HEIGHT RULER_HEIGHT threeClips ''c'' MOVE 1000 150) ''c'')
          \<inter> clipInterval (clipOf (dragTH TRACK_HEIGHT RULER_HEIGHT threeClips ''c'' MOVE 1000 150) ''r'')"
proof (intro conjI)
  show "map (\<lambda>c. (clip_id c, timelineStart c, duration c)) (clipsOnTrack (clips threeClips) 0)
     = [(''l'', 0, 5), (''r'', 9, 3), (''c'', 20, 5)]"
    by (rule threeClips_track0)
  show "handleMouseMove TRACK_HEIGHT RULER_HEIGHT threeClips (clipOf threeClips ''c'') None
         (handleMouseDown (clipOf threeClips ''c'') (pointerAt 1000) MOVE) (pointerAt 150)
       = Some (UPDATE_CLIP ''c''
           (noChanges\<lparr>ch_timelineStart := Some 5, ch_trackId := Some 0, ch_zIndex := Some 0\<rparr>))"
    by (simp add: threeClips_def obj_simps example_simps drag_simps)
  show "map (\<lambda>c. (clip_id c, timelineStart c, duration c))
        (clipsOnTrack (clips (dragTH TRACK_HEIGHT RULER_HEIGHT threeClips ''c'' MOVE 1000 150)) 0)
      = [(''l'', 0, 5), (''r'', 9, 3), (''c'', 5, 5)]"
    by (simp add: threeClips_def clipsOnTrack_def obj_simps example_simps drag_simps)
  show "9 \<in> clipInterval (clipOf (dragTH TRACK_HEIGHT RULER_HEIGHT threeClips ''c'' MOVE 1000 150) ''c'')
          \<inter> clipInterval (clipOf (dragTH TRACK_HEIGHT RULER_HEIGHT threeClips ''c'' MOVE 1000 150) ''r'')"
    by (simp add: clipInterval_def interval_def threeClips_def obj_simps example_simps drag_simps)
qed

text \<open>The same in terms of \<open>noOverlap\<close>: it holds of track 0 before the move and not after it.\<close>

lemma threeClips_move_breaks_noOverlap:
  "noOverlap (clipsOnTrack (clips threeClips) 0)
   \<and> \<not> noOverlap
         (clipsOnTrack (clips (dragTH TRACK_HEIGHT RULER_HEIGHT threeClips ''c'' MOVE 1000 150)) 0)"
proof -
  let ?after =
    "clipsOnTrack (clips (dragTH TRACK_HEIGHT RULER_HEIGHT threeClips ''c'' MOVE 1000 150)) 0"
  have "map (\<lambda>c. (clip_id c, timelineStart c, duration c)) ?after
      = [(''l'', 0, 5), (''r'', 9, 3), (''c'', 5, 5)]"
    by (simp add: threeClips_def clipsOnTrack_def obj_simps example_simps drag_simps)
  then obtain l r c where xs: "?after = [l, r, c]"
    and r: "clip_id r = ''r''" "timelineStart r = 9" "duration r = 3"
    and c: "clip_id c = ''c''" "timelineStart c = 5" "duration c = 5"
    by (auto simp: map_eq_Cons_conv)
  have "c \<noteq> r" using r(1) c(1) by auto
  moreover have "9 \<in> clipInterval c \<inter> clipInterval r"
    using r c by (simp add: clipInterval_def interval_def)
  ultimately have "\<not> noOverlap ?after"
    unfolding xs noOverlap_def by auto
  then show ?thesis using threeClips_noOverlap by simp
qed

section \<open>Determinism of the filter graph\<close>

text \<open>
  Claim C3. The arguments that \<open>exportVideo\<close> hands to the encoder (the input list, the
  \<open>filter_complex\<close> chain and the map arguments) depend on the timeline state only: two
  exports of the same state that both get as far as the encoder pass it the same
  arguments, whatever the state of the service object and the outcomes of the awaited
  calls were; and an export whose backend is loaded and whose asset writes succeed does
  get that far.
\<close>

theorem export_graph_deterministic:
  "(exportCommand env1 fmt state = Inr g1 \<and> exportCommand env2 fmt state = Inr g2
      \<longrightarrow> g1 = g2)
   \<and> (isLoaded env1 \<and> (\<forall>f u. assetWriteOk env1 f u)
      \<longrightarrow> (\<exists>g. exportCommand env1 fmt state = Inr g))"
proof
  let ?ids = "uniqueAssets (activeClips state)"
  show "exportCommand env1 fmt state = Inr g1 \<and> exportCommand env2 fmt state = Inr g2
      \<longrightarrow> g1 = g2"
  proof
    assume h: "exportCommand env1 fmt state = Inr g1 \<and> exportCommand env2 fmt state = Inr g2"
    from h obtain r1 where r1: "writeAssets env1 state ?ids [] [] 0 = Inr r1"
      "buildExecArgs fmt state (fst r1) (snd r1) = Inr g1"
      unfolding exportCommand_def by (auto split: if_splits sum.splits)
    from h obtain r2 where r2: "writeAssets env2 state ?ids [] [] 0 = Inr r2"
      "buildExecArgs fmt state (fst r2) (snd r2) = Inr g2"
      unfolding exportCommand_def by (auto split: if_splits sum.splits)
    have "r1 = r2" using writeAssets_env_independent [OF r1(1) r2(1)] .
    then show "g1 = g2" using r1(2) r2(2) by simp
  qed
  show "isLoaded env1 \<and> (\<forall>f u. assetWriteOk env1 f u)
      \<longrightarrow> (\<exists>g. exportCommand env1 fmt state = Inr g)"
  proof
    assume h: "isLoaded env1 \<and> (\<forall>f u. assetWriteOk env1 f u)"
    obtain ia m where r: "writeAssets env1 state ?ids [] [] 0 = Inr (ia, m)"
      using writeAssets_succeeds [of env1 state ?ids "[]" "[]" 0] h by (metis surj_pair)
    have "\<forall>k \<in> fst ` set m. obj_get (assets state) k \<noteq> None"
      using writeAssets_keys [OF r] by simp
    then obtain g where "buildExecArgs fmt state ia m = Inr g"
      using buildExecArgs_succeeds by blast
    then show "\<exists>g. exportCommand env1 fmt state = Inr g"
      unfolding exportCommand_def using h r by simp
  qed
qed

theorem export_graph_deterministic_witness:
  "isLoaded envFresh \<and> (\<forall>f u. assetWriteOk envFresh f u)
   \<and> isLoaded envWarm \<and> (\<forall>f u. assetWriteOk envWarm f u)
   \<and> (\<exists>g. exportCommand envFresh exampleFmt videoTen = Inr g
          \<and> exportCommand envWarm exampleFmt videoTen = Inr g)"
proof -
  have fresh: "isLoaded envFresh \<and> (\<forall>f u. assetWriteOk envFresh f u)"
    by (simp add: envFresh_def)
  have warm: "isLoaded envWarm \<and> (\<forall>f u. assetWriteOk envWarm f u)"
    by (simp add: envWarm_def)
  obtain g1 where g1: "exportCommand envFresh exampleFmt videoTen = Inr g1"
    using export_graph_deterministic [of envFresh exampleFmt videoTen] fresh by blast
  obtain g2 where g2: "exportCommand envWarm exampleFmt videoTen = Inr g2"
    using export_graph_deterministic [of envWarm exampleFmt videoTen] warm by blast
  have "g1 = g2"
    using export_graph_deterministic [of envFresh exampleFmt videoTen g1 envWarm g2] g1 g2
    by blast
  then show ?thesis using fresh warm g1 g2 by simp
qed

section \<open>Trimming the right edge\<close>




section \<open>Trim floors\<close>




section \<open>The trailing margin of the timeline\<close>



section \<open>Commands with unknown targets\<close>

text \<open>
  Claim C7, as the code has it. The reducer returns a state for every state and every
  action. The guard \<open>!clip\<close> of \<open>UPDATE_CLIP\<close> holds of an identifier exactly when no
  clip is stored under it and it is not a name that every object inherits;
  \<open>UPDATE_CLIP\<close> with such an identifier returns the state unchanged. \<open>UPDATE_TRACK\<close>
  with an identifier no track has returns the state unchanged. \<open>REMOVE_CLIP\<close> with an
  identifier no clip has changes nothing but the selection, which it clears.
\<close>

theorem unknown_target_commands:
  "(isFalsy (jsIndex (clips s) cid)
      \<longleftrightarrow> obj_get (clips s) cid = None \<and> cid \<notin> set inheritedNames)
   \<and> (obj_get (clips s) cid = None \<and> cid \<notin> set inheritedNames
        \<longrightarrow> timelineReducer r s (UPDATE_CLIP cid ch) = s)
   \<and> ((\<forall>t \<in> set (tracks s). track_id t \<noteq> tid)
        \<longrightarrow> timelineReducer r s (UPDATE_TRACK tid tch) = s)
   \<and> (obj_get (clips s) cid = None
        \<longrightarrow> timelineReducer r s (REMOVE_CLIP cid) = s\<lparr>selectedClipId := None\<rparr>)"
proof (intro conjI impI)
  show "isFalsy (jsIndex (clips s) cid)
      \<longleftrightarrow> obj_get (clips s) cid = None \<and> cid \<notin> set inheritedNames"
    by (rule isFalsy_jsIndex)
next
  assume "obj_get (clips s) cid = None \<and> cid \<notin> set inheritedNames"
  then show "timelineReducer r s (UPDATE_CLIP cid ch) = s" by simp
next
  assume "\<forall>t \<in> set (tracks s). track_id t \<noteq> tid"
  then have "map (\<lambda>t. if track_id t = tid then applyTrackChanges t tch else t) (tracks s)
      = tracks s"
    by (simp add: map_idI)
  then show "timelineReducer r s (UPDATE_TRACK tid tch) = s" by simp
next
  assume "obj_get (clips s) cid = None"
  then show "timelineReducer r s (REMOVE_CLIP cid) = s\<lparr>selectedClipId := None\<rparr>"
    by (simp add: obj_delete_absent)
qed

text \<open>
  In \<open>threeClips\<close>, whose tracks are 3, 2, 1, 0 and \<open>-1\<close>, no clip is stored under
  \<open>zzz\<close> and there is no track 7.
\<close>

theorem unknown_target_commands_witness:
  "obj_get (clips threeClips) ''zzz'' = None
   \<and> ''zzz'' \<notin> set inheritedNames
   \<and> isFalsy (jsIndex (clips threeClips) ''zzz'')
   \<and> map track_id (tracks threeClips) = [3, 2, 1, 0, - 1]
   \<and> timelineReducer [] threeClips (UPDATE_CLIP ''zzz'' noChanges) = threeClips
   \<and> timelineReducer [] threeClips
        (UPDATE_TRACK 7 \<lparr>tch_id = None, tch_type = None, tch_name = None,
                         tch_isMuted = Some True, tch_isHidden = None\<rparr>) = threeClips
   \<and> timelineReducer [] threeClips (REMOVE_CLIP ''zzz'') = threeClips\<lparr>selectedClipId := None\<rparr>"
proof -
  let ?mute = "\<lparr>tch_id = None, tch_type = None, tch_name = None,
                tch_isMuted = Some True, tch_isHidden = None\<rparr>"
  note fact = unknown_target_commands [of threeClips "''zzz''" "[]" noChanges 7 ?mute]
  have h1: "obj_get (clips threeClips) ''zzz'' = None"
    by (simp add: threeClips_def obj_simps example_simps)
  have h0: "''zzz'' \<notin> set inheritedNames"
    by (simp add: inheritedNames_def)
  have h10: "obj_get (clips threeClips) ''zzz'' = None \<and> ''zzz'' \<notin> set inheritedNames"
    using h1 h0 by (rule conjI)
  have g: "isFalsy (jsIndex (clips threeClips) ''zzz'')"
    using fact [THEN conjunct1] h10 by (rule iffD2)
  have ids: "map track_id (tracks threeClips) = [3, 2, 1, 0, - 1]"
    by (simp add: threeClips_def obj_simps example_simps)
  have h2: "\<forall>t \<in> set (tracks threeClips). track_id t \<noteq> 7"
  proof
    fix t assume "t \<in> set (tracks threeClips)"
    then have "track_id t \<in> set (map track_id (tracks threeClips))" by simp
    then show "track_id t \<noteq> 7" unfolding ids by auto
  qed
  have a: "timelineReducer [] threeClips (UPDATE_CLIP ''zzz'' noChanges) = threeClips"
    by (rule fact [THEN conjunct2, THEN conjunct1, THEN mp, OF h10])
  have b: "timelineReducer [] threeClips (UPDATE_TRACK 7 ?mute) = threeClips"
    by (rule fact [THEN conjunct2, THEN conjunct2, THEN conjunct1, THEN mp, OF h2])
  have c: "timelineReducer [] threeClips (REMOVE_CLIP ''zzz'')
      = threeClips\<lparr>selectedClipId := None\<rparr>"
    by (rule fact [THEN conjunct2, THEN conjunct2, THEN conjunct2, THEN mp, OF h1])
  show ?thesis
    by (intro conjI h1 h0 g ids a b c)
qed

text \<open>
  Claim C7 as stated fails in two ways.
  For \<open>REMOVE_CLIP\<close>: in \<open>threeClips\<close> the clip \<open>c\<close> is selected, and removing the
  identifier \<open>zzz\<close>, which no clip has, clears the selection.
  For \<open>UPDATE_CLIP\<close>: no clip of \<open>threeClips\<close> is stored under \<open>constructor\<close>, yet
  \<open>state.clips[id]\<close> finds the function every object inherits under that name, so the
  guard \<open>!clip\<close> does not hold and the branch goes on to store an entry under that
  identifier instead of returning the state.
\<close>

theorem unknown_target_counterexample:
  "obj_get (clips threeClips) ''zzz'' = None
   \<and> selectedClipId threeClips = Some ''c''
   \<and> selectedClipId (timelineReducer [] threeClips (REMOVE_CLIP ''zzz'')) = None
   \<and> timelineReducer [] threeClips (REMOVE_CLIP ''zzz'') \<noteq> threeClips
   \<and> obj_get (clips threeClips) ''constructor'' = None
   \<and> jsIndex (clips threeClips) ''constructor'' = Inherited
   \<and> \<not> isFalsy (jsIndex (clips threeClips) ''constructor'')"
proof -
  have a: "obj_get (clips threeClips) ''zzz'' = None"
    by (simp add: threeClips_def obj_simps example_simps)
  have b: "selectedClipId threeClips = Some ''c''"
    by (simp add: threeClips_def obj_simps example_simps)
  have c: "selectedClipId (timelineReducer [] threeClips (REMOVE_CLIP ''zzz'')) = None"
    by simp
  have d: "timelineReducer [] threeClips (REMOVE_CLIP ''zzz'') \<noteq> threeClips"
    using b c by (metis option.distinct(1))
  have e: "obj_get (clips threeClips) ''constructor'' = None"
    by (simp add: threeClips_def obj_simps example_simps)
  have f: "jsIndex (clips threeClips) ''constructor'' = Inherited"
    using e by (simp add: jsIndex_def obj_get_def inheritedNames_def)
  have g: "\<not> isFalsy (jsIndex (clips threeClips) ''constructor'')"
    unfolding f by (simp add: isFalsy_def)
  show ?thesis
    by (intro conjI a b c d e f g)
qed

section \<open>Selection after a removal\<close>

text \<open>
  Claim C8, as the code has it. \<open>REMOVE_CLIP\<close> clears \<open>selectedClipId\<close> whichever clip
  it removes, the selected one or another. The removed identifier has no clip afterwards,
  every other identifier keeps its clip, and no other field of the state changes.
\<close>

theorem remove_clip_frame:
  "selectedClipId (timelineReducer r s (REMOVE_CLIP cid)) = None
   \<and> obj_get (clips (timelineReducer r s (REMOVE_CLIP cid))) cid = None
   \<and> (\<forall>k. k \<noteq> cid \<longrightarrow>
         obj_get (clips (timelineReducer r s (REMOVE_CLIP cid))) k = obj_get (clips s) k)
   \<and> assets (timelineReducer r s (REMOVE_CLIP cid)) = assets s
   \<and> tracks (timelineReducer r s (REMOVE_CLIP cid)) = tracks s
   \<and> state_duration (timelineReducer r s (REMOVE_CLIP cid)) = state_duration s
   \<and> currentTime (timelineReducer r s (REMOVE_CLIP cid)) = currentTime s
   \<and> isPlaying (timelineReducer r s (REMOVE_CLIP cid)) = isPlaying s
   \<and> zoom (timelineReducer r s (REMOVE_CLIP cid)) = zoom s
   \<and> canvasSize (timelineReducer r s (REMOVE_CLIP cid)) = canvasSize s"
  by (simp add: obj_get_delete)

theorem remove_clip_frame_witness:
  "''r'' \<noteq> ''l''
   \<and> selectedClipId (timelineReducer [] threeClips (REMOVE_CLIP ''l'')) = None
   \<and> obj_get (clips (timelineReducer [] threeClips (REMOVE_CLIP ''l''))) ''l'' = None
   \<and> obj_get (clips (timelineReducer [] threeClips (REMOVE_CLIP ''l''))) ''r''
       = obj_get (clips threeClips) ''r''
   \<and> obj_get (clips threeClips) ''r'' \<noteq> None"
proof -
  note frame = remove_clip_frame [of "[]" threeClips "''l''"]
  have ne: "''r'' \<noteq> ''l''" by simp
  have sel: "selectedClipId (timelineReducer [] threeClips (REMOVE_CLIP ''l'')) = None"
    by (rule frame [THEN conjunct1])
  have gone: "obj_get (clips (timelineReducer [] threeClips (REMOVE_CLIP ''l''))) ''l'' = None"
    by (rule frame [THEN conjunct2, THEN conjunct1])
  have keep: "obj_get (clips (timelineReducer [] threeClips (REMOVE_CLIP ''l''))) ''r''
       = obj_get (clips threeClips) ''r''"
    by (rule frame [THEN conjunct2, THEN conjunct2, THEN conjunct1, rule_format, OF ne])
  have present: "obj_get (clips threeClips) ''r'' \<noteq> None"
    by (simp add: threeClips_def obj_simps example_simps)
  show ?thesis
    by (intro conjI ne sel gone keep present)
qed

text \<open>
  Claim C8 as stated fails in its second half: in \<open>threeClips\<close> the clip \<open>c\<close> is
  selected, and removing the clip \<open>l\<close> does not leave the selection as it was.
\<close>

theorem remove_selection_counterexample:
  "selectedClipId threeClips = Some ''c''
   \<and> ''l'' \<noteq> ''c''
   \<and> obj_get (clips threeClips) ''l'' \<noteq> None
   \<and> selectedClipId (timelineReducer [] threeClips (REMOVE_CLIP ''l''))
       \<noteq> selectedClipId threeClips"
  by (simp add: threeClips_def obj_simps example_simps)

section \<open>Fold order of clips with equal zIndex\<close>




section \<open>Monotonicity of the total duration\<close>



end
